theory Spec2Isabelle
  imports Complex_Main "HOL-Library.Sublist" "HOL-Library.AList"
begin

section \<open>Data model\<close>

text \<open>
  The form state of \<^verbatim>\<open>page.tsx\<close> (\<^verbatim>\<open>interface SearchFields\<close>), in the field order of
  the initial object literal.
\<close>

record search_fields =
  master_id :: string
  name :: string
  fname :: string
  alt :: string
  email :: string
  address :: string
  mobile :: string

text \<open>
  One row of a search response (\<^verbatim>\<open>interface SearchResult\<close>). The record is declared after
  \<open>search_fields\<close>, so the unqualified field names below are those of a result row and the
  form fields are written \<open>search_fields.name\<close> and so on.
\<close>

record search_result =
  master_id :: string
  mobile :: string
  alt :: string
  name :: string
  fname :: string
  address :: string
  email :: string

section \<open>JavaScript library functions used by the components\<close>

text \<open>
  Strings are byte strings. \<^verbatim>\<open>String.prototype.toLowerCase\<close> is modelled on its ASCII
  fragment: the letters \<open>A\<close> to \<open>Z\<close> (codes 65 to 90) move to \<open>a\<close> to \<open>z\<close>, every other
  character stays.
\<close>

definition lower_char :: "char \<Rightarrow> char" where
  "lower_char c =
     (let n = of_char c :: nat in if 65 \<le> n \<and> n \<le> 90 then char_of (n + 32) else c)"

definition toLowerCase :: "string \<Rightarrow> string" where
  "toLowerCase s = map lower_char s"

text \<open>
  \<^verbatim>\<open>s.includes(t)\<close>: some position of \<open>s\<close> starts an occurrence of \<open>t\<close>. The scan tries the
  positions from left to right; the position after the last character is tried too, where only
  the empty \<open>t\<close> occurs. (The plain name is a keyword of Isabelle, hence the suffix.)
\<close>

fun includes_str :: "string \<Rightarrow> string \<Rightarrow> bool" where
  "includes_str [] t = (t = [])"
| "includes_str (c # cs) t = (prefix t (c # cs) \<or> includes_str cs t)"

text \<open>
  \<^verbatim>\<open>Array.prototype.slice(start, end)\<close> of ECMAScript: a negative index counts from the end
  of the array, both indices are clamped to the array, and an empty range gives the empty array.
\<close>

definition slice :: "'a list \<Rightarrow> int \<Rightarrow> int \<Rightarrow> 'a list" where
  "slice xs start finish =
     (let len = int (length xs);
          k = (if start < 0 then max (len + start) 0 else min start len);
          final = (if finish < 0 then max (len + finish) 0 else min finish len)
      in take (nat (final - k)) (drop (nat k) xs))"

text \<open>\<^verbatim>\<open>Array.prototype.join(sep)\<close> on an array of strings.\<close>

fun join :: "string \<Rightarrow> string list \<Rightarrow> string" where
  "join sep [] = []"
| "join sep [x] = x"
| "join sep (x # y # ys) = x @ sep @ join sep (y # ys)"

text \<open>
  \<^verbatim>\<open>String.prototype.trim\<close> on the ASCII white space and line terminators: tab, line feed,
  vertical tab, form feed, carriage return and space.
\<close>

definition is_space :: "char \<Rightarrow> bool" where
  "is_space c = (c \<in> set [CHR 0x09, CHR 0x0A, CHR 0x0B, CHR 0x0C, CHR 0x0D, CHR '' ''])"

definition trim :: "string \<Rightarrow> string" where
  "trim s = rev (dropWhile is_space (rev (dropWhile is_space s)))"

text \<open>
  What the components do to the world outside their state: the POST of the search request
  with its payload, the clipboard write, the scroll to the top, a line on the console.
\<close>

datatype effect =
  Post_search "(string \<times> string) list"
| Clipboard_writeText string
| Window_scrollTo_top
| Console_error string

section \<open>The results table (\<^verbatim>\<open>ResultsTable\<close>)\<close>

definition RESULTS_PER_PAGE :: int where
  "RESULTS_PER_PAGE = 100"

text \<open>
  The predicate of the \<^verbatim>\<open>results.filter\<close> callback: the seven tests in the order of the
  source, \<open>searchText\<close> being the lowercased filter text.
\<close>

definition row_matches :: "string \<Rightarrow> search_result \<Rightarrow> bool" where
  "row_matches searchText result =
     (includes_str (toLowerCase (master_id result)) searchText \<or>
      includes_str (toLowerCase (name result)) searchText \<or>
      includes_str (toLowerCase (fname result)) searchText \<or>
      includes_str (toLowerCase (mobile result)) searchText \<or>
      includes_str (toLowerCase (alt result)) searchText \<or>
      includes_str (toLowerCase (email result)) searchText \<or>
      includes_str (toLowerCase (address result)) searchText)"

text \<open>\<^verbatim>\<open>filteredResults\<close>: the empty filter text is falsy and returns the results as they are.\<close>

definition filteredResults :: "search_result list \<Rightarrow> string \<Rightarrow> search_result list" where
  "filteredResults results filterText =
     (if filterText = [] then results
      else let searchText = toLowerCase filterText
           in filter (row_matches searchText) results)"

text \<open>
  \<^verbatim>\<open>totalPages = Math.ceil(filteredResults.length / RESULTS_PER_PAGE)\<close>. An array length is
  below \<open>2^32\<close>, where the floating-point quotient rounds up to the same integer as the exact
  one, so the quotient is taken in the reals.
\<close>

definition totalPages :: "search_result list \<Rightarrow> int" where
  "totalPages filtered = \<lceil>real (length filtered) / real_of_int RESULTS_PER_PAGE\<rceil>"

definition startIndex :: "int \<Rightarrow> int" where
  "startIndex currentPage = (currentPage - 1) * RESULTS_PER_PAGE"

definition endIndex :: "int \<Rightarrow> int" where
  "endIndex currentPage = startIndex currentPage + RESULTS_PER_PAGE"

definition paginatedResults :: "search_result list \<Rightarrow> int \<Rightarrow> search_result list" where
  "paginatedResults filtered currentPage =
     slice filtered (startIndex currentPage) (endIndex currentPage)"

text \<open>
  The hook state of a mounted table: the two \<^verbatim>\<open>useState\<close> cells, and the dependency
  (\<^verbatim>\<open>[filterText]\<close>) that the \<^verbatim>\<open>useMemo\<close> of lines 85 to 87 saw at the last render.
\<close>

record table_state =
  copiedId :: "string option"
  currentPage :: int
  memo_filterText :: string

text \<open>
  The hooks of one render of \<^verbatim>\<open>ResultsTable\<close> with the prop \<open>filterText\<close>. On mount
  (\<open>None\<close>) the state cells take their initial values and the memo callback runs. On a later
  render the memo callback runs, and sets the page to 1, exactly when the dependency differs from
  the one of the last render.
\<close>

definition ResultsTable_hooks :: "string \<Rightarrow> table_state option \<Rightarrow> table_state" where
  "ResultsTable_hooks filterText prev =
     (case prev of
        None \<Rightarrow> \<lparr>copiedId = None, currentPage = 1, memo_filterText = filterText\<rparr>
      | Some t \<Rightarrow>
          if memo_filterText t = filterText then t
          else t\<lparr>currentPage := 1, memo_filterText := filterText\<rparr>)"

text \<open>
  \<^verbatim>\<open>goToPage\<close>, with the \<^verbatim>\<open>totalPages\<close> its closure holds: the guard, then the state update and
  the scroll.
\<close>

definition goToPage :: "int \<Rightarrow> int \<Rightarrow> table_state \<Rightarrow> table_state \<times> effect list" where
  "goToPage total_pages page t =
     (if page \<ge> 1 \<and> page \<le> total_pages then (t\<lparr>currentPage := page\<rparr>, [Window_scrollTo_top])
      else (t, []))"

text \<open>
  \<^verbatim>\<open>copyAllResults\<close>, in the scope of the component (its props \<open>results\<close> and \<open>filterText\<close>,
  its hook state): the template literal of one row, the rows joined by line feeds, and the call
  of the clipboard's \<^verbatim>\<open>writeText\<close> with that text. \<open>clipboard_ok\<close> tells whether the call
  succeeds; a failed call is caught and logged.
\<close>

definition row_text :: "search_result \<Rightarrow> string" where
  "row_text r =
     master_id r @ [CHR 0x09] @ name r @ [CHR 0x09] @ fname r @ [CHR 0x09] @ mobile r @
     [CHR 0x09] @ alt r @ [CHR 0x09] @ email r @ [CHR 0x09] @ address r"

definition copyAllResults ::
  "bool \<Rightarrow> search_result list \<Rightarrow> string \<Rightarrow> table_state \<Rightarrow> effect list" where
  "copyAllResults clipboard_ok results filterText t =
     (let text = join [CHR 0x0A] (map row_text results)
      in if clipboard_ok then [Clipboard_writeText text]
         else [Clipboard_writeText text, Console_error ''Failed to copy all:''])"

section \<open>The page (\<^verbatim>\<open>Home\<close>)\<close>

datatype search_mode = AND | OR

record search_stats =
  totalMatches :: real
  resultsReturned :: real
  totalTime :: real
  queryParseTime :: real
  searchExecutionTime :: real
  documentRetrievalTime :: real

text \<open>The body of a successful response (\<^verbatim>\<open>interface SearchResponse\<close>).\<close>

record search_response =
  results :: "search_result list"
  total_matches :: real
  results_returned :: real
  query_parse_time_ms :: real
  search_execution_time_ms :: real
  document_retrieval_time_ms :: real
  total_time_ms :: real

text \<open>
  What the \<^verbatim>\<open>catch\<close> clause receives: an \<^verbatim>\<open>Error\<close> object with its message (a network
  failure and a non-2xx status both reject with one), or any other thrown value.
\<close>

datatype thrown = Error string | Not_an_Error

text \<open>
  The seven \<^verbatim>\<open>useState\<close> cells of \<^verbatim>\<open>Home\<close>. The field \<open>results\<close> is declared after the
  one of the response, which is written \<open>search_response.results\<close>.
\<close>

record home_state =
  searchFields :: search_fields
  searchMode :: search_mode
  results :: "search_result list"
  loading :: bool
  error :: "string option"
  searchStats :: search_stats
  filterText :: string

definition empty_fields :: search_fields where
  "empty_fields =
     \<lparr>search_fields.master_id = [], search_fields.name = [], search_fields.fname = [],
      search_fields.alt = [], search_fields.email = [], search_fields.address = [],
      search_fields.mobile = []\<rparr>"

definition zero_stats :: search_stats where
  "zero_stats =
     \<lparr>totalMatches = 0, resultsReturned = 0, totalTime = 0, queryParseTime = 0,
      searchExecutionTime = 0, documentRetrievalTime = 0\<rparr>"

text \<open>The initial values of the state cells (lines 20 to 48).\<close>

definition Home_initial :: home_state where
  "Home_initial =
     \<lparr>searchFields = empty_fields, searchMode = AND, results = [], loading = False,
      error = None, searchStats = zero_stats, filterText = []\<rparr>"

text \<open>\<^verbatim>\<open>Object.entries(searchFields)\<close>, in the insertion order of the keys.\<close>

definition entries :: "search_fields \<Rightarrow> (string \<times> string) list" where
  "entries sf =
     [(''master_id'', search_fields.master_id sf), (''name'', search_fields.name sf),
      (''fname'', search_fields.fname sf), (''alt'', search_fields.alt sf),
      (''email'', search_fields.email sf), (''address'', search_fields.address sf),
      (''mobile'', search_fields.mobile sf)]"

definition mode_text :: "search_mode \<Rightarrow> string" where
  "mode_text m = (case m of AND \<Rightarrow> ''AND'' | OR \<Rightarrow> ''OR'')"

text \<open>
  The payload of lines 57 to 65: the combinator under \<open>filter\<close>, then every field whose
  trimmed value is not empty, assigned under its key.
\<close>

definition search_payload :: "search_fields \<Rightarrow> search_mode \<Rightarrow> (string \<times> string) list" where
  "search_payload sf m =
     fold (\<lambda>(key, v) payload. if trim v \<noteq> [] then AList.update key (trim v) payload else payload)
       (entries sf) [(''filter'', mode_text m)]"

text \<open>
  \<^verbatim>\<open>handleSearch\<close> up to the \<^verbatim>\<open>await\<close>: the guard on the loading flag, the two state
  updates and the request.
\<close>

definition handleSearch_begin :: "home_state \<Rightarrow> home_state \<times> effect list" where
  "handleSearch_begin s =
     (if loading s then (s, [])
      else (s\<lparr>loading := True, error := None\<rparr>,
            [Post_search (search_payload (searchFields s) (searchMode s))]))"

text \<open>The rest of the \<^verbatim>\<open>try\<close> block with the \<^verbatim>\<open>finally\<close> clause, once the request has succeeded.\<close>

definition handleSearch_fulfilled :: "search_response \<Rightarrow> home_state \<Rightarrow> home_state" where
  "handleSearch_fulfilled response s =
     s\<lparr>results := search_response.results response,
       searchStats :=
         \<lparr>totalMatches = total_matches response,
          resultsReturned = results_returned response,
          totalTime = total_time_ms response,
          queryParseTime = query_parse_time_ms response,
          searchExecutionTime = search_execution_time_ms response,
          documentRetrievalTime = document_retrieval_time_ms response\<rparr>,
       loading := False\<rparr>"

text \<open>The \<^verbatim>\<open>catch\<close> clause with the \<^verbatim>\<open>finally\<close> clause, once the request has failed.\<close>

definition error_text :: "thrown \<Rightarrow> string" where
  "error_text err = (case err of Error message \<Rightarrow> message
                     | Not_an_Error \<Rightarrow> ''Search failed. Please try again.'')"

definition handleSearch_rejected :: "thrown \<Rightarrow> home_state \<Rightarrow> home_state \<times> effect list" where
  "handleSearch_rejected err s =
     (s\<lparr>error := Some (error_text err), loading := False\<rparr>, [Console_error ''Search error:''])"

text \<open>
  One whole run of \<^verbatim>\<open>handleSearch\<close> against a search service \<open>searchAPI\<close>, which answers a
  payload with a response or rejects it with a thrown value.
\<close>

definition handleSearch ::
  "((string \<times> string) list \<Rightarrow> thrown + search_response) \<Rightarrow> home_state \<Rightarrow>
     home_state \<times> effect list" where
  "handleSearch searchAPI s =
     (if loading s then (s, [])
      else
        let (s1, sent) = handleSearch_begin s
        in case searchAPI (search_payload (searchFields s) (searchMode s)) of
             Inr response \<Rightarrow> (handleSearch_fulfilled response s1, sent)
           | Inl err \<Rightarrow>
               (let (s2, logged) = handleSearch_rejected err s1 in (s2, sent @ logged)))"

definition handleReset :: "home_state \<Rightarrow> home_state" where
  "handleReset s =
     s\<lparr>searchFields := empty_fields, results := [], filterText := [], error := None,
       searchStats := zero_stats\<rparr>"


section \<open>Rendering and events\<close>

text \<open>
  The page with the table it renders: \<open>None\<close> while no table is mounted. A table that is
  unmounted loses its hook state, and the next one is mounted afresh.
\<close>

record view =
  home :: home_state
  table :: "table_state option"

text \<open>
  One render of \<^verbatim>\<open>Home\<close>: the table is part of the output only under
  \<^verbatim>\<open>!loading && results.length > 0\<close> (line 139).
\<close>

definition Home_render :: "view \<Rightarrow> view" where
  "Home_render v =
     (let s = home v
      in if \<not> loading s \<and> length (results s) > 0
         then v\<lparr>table := Some (ResultsTable_hooks (filterText s) (table v))\<rparr>
         else v\<lparr>table := None\<rparr>)"

text \<open>
  The events of the page: the callbacks handed to the form and the table, and the two ways
  the outstanding request settles.
\<close>

datatype event =
  FieldChange search_fields
| ModeChange search_mode
| SearchClicked
| RequestFulfilled search_response
| RequestRejected thrown
| ResetClicked
| FilterChange string
| PageRequested int

definition handle :: "event \<Rightarrow> view \<Rightarrow> view" where
  "handle e v =
     (case e of
        FieldChange sf \<Rightarrow> v\<lparr>home := (home v)\<lparr>searchFields := sf\<rparr>\<rparr>
      | ModeChange m \<Rightarrow> v\<lparr>home := (home v)\<lparr>searchMode := m\<rparr>\<rparr>
      | SearchClicked \<Rightarrow> v\<lparr>home := fst (handleSearch_begin (home v))\<rparr>
      | RequestFulfilled response \<Rightarrow> v\<lparr>home := handleSearch_fulfilled response (home v)\<rparr>
      | RequestRejected err \<Rightarrow> v\<lparr>home := fst (handleSearch_rejected err (home v))\<rparr>
      | ResetClicked \<Rightarrow> v\<lparr>home := handleReset (home v)\<rparr>
      | FilterChange f \<Rightarrow> v\<lparr>home := (home v)\<lparr>filterText := f\<rparr>\<rparr>
      | PageRequested p \<Rightarrow>
          (case table v of
             None \<Rightarrow> v
           | Some t \<Rightarrow>
               v\<lparr>table :=
                 Some (fst (goToPage
                   (totalPages (filteredResults (results (home v)) (filterText (home v)))) p t))\<rparr>))"

text \<open>React renders the page again after the state updates of each event.\<close>

definition dispatch :: "event \<Rightarrow> view \<Rightarrow> view" where
  "dispatch e v = Home_render (handle e v)"

definition page_shown :: "view \<Rightarrow> int option" where
  "page_shown v = map_option currentPage (table v)"

section \<open>The specification's readings\<close>

text \<open>The total number of pages as the specification words it: the ceiling, at least 1.\<close>

definition spec_totalPages :: "nat \<Rightarrow> int" where
  "spec_totalPages n = max 1 \<lceil>real n / 100\<rceil>"

text \<open>
  The slice \<open>[(p - 1) * 100, p * 100)\<close> clamped to the available length: the elements at
  these indices, in order.
\<close>

definition spec_page :: "'a list \<Rightarrow> int \<Rightarrow> 'a list" where
  "spec_page xs p = map (\<lambda>i. xs ! i) [nat ((p - 1) * 100) ..< min (nat (p * 100)) (length xs)]"

text \<open>
  The filter as the specification words it: a record passes when the lowercased filter
  string is a substring of at least one of its seven lowercased fields.
\<close>

definition spec_passes :: "string \<Rightarrow> search_result \<Rightarrow> bool" where
  "spec_passes f r =
     (sublist (toLowerCase f) (toLowerCase (master_id r)) \<or>
      sublist (toLowerCase f) (toLowerCase (name r)) \<or>
      sublist (toLowerCase f) (toLowerCase (fname r)) \<or>
      sublist (toLowerCase f) (toLowerCase (mobile r)) \<or>
      sublist (toLowerCase f) (toLowerCase (alt r)) \<or>
      sublist (toLowerCase f) (toLowerCase (email r)) \<or>
      sublist (toLowerCase f) (toLowerCase (address r)))"

section \<open>Sample data\<close>

definition sample_row :: search_result where
  "sample_row =
     \<lparr>master_id = ''M-1001'', mobile = ''9000000001'', alt = [], name = ''Asha Rao'',
      fname = ''Ravi Rao'', address = ''12 Hill Road'', email = ''a@b.com''\<rparr>"

definition sample_table :: table_state where
  "sample_table = \<lparr>copiedId = None, currentPage = 3, memo_filterText = []\<rparr>"

definition sample_home :: home_state where
  "sample_home = Home_initial\<lparr>results := replicate 250 sample_row\<rparr>"

definition sample_response :: search_response where
  "sample_response =
     \<lparr>search_response.results = [sample_row], total_matches = 1, results_returned = 1,
      query_parse_time_ms = 0, search_execution_time_ms = 1, document_retrieval_time_ms = 0,
      total_time_ms = 1\<rparr>"

section \<open>The filter operation\<close>

lemma includes_iff_sublist: "includes_str s t \<longleftrightarrow> sublist t s"
  by (induction s) (simp_all add: sublist_Cons_right)

lemma row_matches_iff_spec: "row_matches (toLowerCase f) r \<longleftrightarrow> spec_passes f r"
  by (simp add: row_matches_def spec_passes_def includes_iff_sublist)

lemma spec_passes_empty: "spec_passes [] r"
  by (simp add: spec_passes_def toLowerCase_def)

lemma filteredResults_eq_filter: "filteredResults R f = filter (spec_passes f) R"
proof (cases "f = []")
  case True
  then show ?thesis
    by (simp add: filteredResults_def spec_passes_empty)
next
  case False
  have "row_matches (toLowerCase f) = spec_passes f"
    by (rule ext) (simp add: row_matches_iff_spec)
  with False show ?thesis
    by (simp add: filteredResults_def)
qed

lemma lower_filter_sample: "toLowerCase ''A@B'' = ''a@b''"
  by code_simp

lemma lower_email_sample: "toLowerCase ''a@b.com'' = ''a@b.com''"
  by code_simp

lemma email_sample_passes: "spec_passes ''A@B'' (r\<lparr>email := ''a@b.com''\<rparr>)"
  by (simp add: spec_passes_def lower_filter_sample lower_email_sample)

text \<open>
  Claim C3. For every result set \<open>R\<close> and filter string \<open>f\<close>, the filter operation returns
  exactly the records of \<open>R\<close>, in the order of \<open>R\<close>, for which the lowercased \<open>f\<close> is a substring
  of at least one of the seven lowercased fields; the empty filter string returns \<open>R\<close> unchanged,
  with the same length; and a record whose email is \<open>a@b.com\<close> passes the filter \<open>A@B\<close>
  wherever it stands in the result set.
\<close>

theorem filteredResults_spec:
  "filteredResults R f = filter (spec_passes f) R \<and>
   filteredResults R [] = R \<and>
   length (filteredResults R []) = length R \<and>
   r\<lparr>email := ''a@b.com''\<rparr> \<in>
     set (filteredResults (xs @ r\<lparr>email := ''a@b.com''\<rparr> # ys) ''A@B'')"
  by (simp add: filteredResults_eq_filter spec_passes_empty email_sample_passes)

text \<open>
  Claim C8. Filtering is idempotent: filtering the filtered result set again by the same
  filter string gives the same sequence as filtering once.
\<close>

theorem filteredResults_idempotent:
  "filteredResults (filteredResults R f) f = filteredResults R f"
  by (simp add: filteredResults_eq_filter)

section \<open>The number of pages\<close>

lemma ceiling_hundredth: "\<lceil>real n / 100\<rceil> = (int n + 99) div 100"
proof -
  have "\<lceil>real n / 100\<rceil> = \<lceil>real_of_int (int n) / real_of_int 100\<rceil>"
    by simp
  also have "\<dots> = - (- int n div 100)"
    by (simp only: ceiling_divide_eq_div)
  also have "\<dots> = (int n + 99) div 100"
    by linarith
  finally show ?thesis .
qed

lemma totalPages_div: "totalPages xs = (int (length xs) + 99) div 100"
  by (simp add: totalPages_def RESULTS_PER_PAGE_def ceiling_hundredth)

lemma spec_totalPages_div: "spec_totalPages n = max 1 ((int n + 99) div 100)"
  by (simp add: spec_totalPages_def ceiling_hundredth)

text \<open>
  Claim C1, as the specification states it, fails on the empty filtered sequence: the table
  computes 0 pages there, the specification's minimum gives 1.
\<close>

theorem totalPages_empty_counterexample:
  "totalPages [] = 0 \<and> totalPages [] \<noteq> 1 \<and>
   totalPages [] \<noteq> spec_totalPages (length ([] :: search_result list))"
  by (simp add: totalPages_def spec_totalPages_def)

text \<open>
  Claim C1, amended. For every filtered result sequence of length \<open>n\<close>, the total-pages value
  is the ceiling of \<open>n / 100\<close>, the least \<open>k\<close> with \<open>n \<le> 100 * k\<close>, and no minimum is applied: it
  is the specification's value (at least 1) for every non-empty sequence and 0 for the empty one.
\<close>

theorem totalPages_ceiling:
  "100 * (totalPages xs - 1) < int (length xs) \<and> int (length xs) \<le> 100 * totalPages xs \<and>
   totalPages xs = (if xs = [] then 0 else spec_totalPages (length xs))"
proof -
  let ?n = "int (length xs)"
  have a: "100 * (totalPages xs - 1) < ?n"
    unfolding totalPages_div by presburger
  have b: "?n \<le> 100 * totalPages xs"
    unfolding totalPages_div by presburger
  have c: "totalPages xs = (if xs = [] then 0 else spec_totalPages (length xs))"
  proof (cases "xs = []")
    case True
    then show ?thesis by (simp add: totalPages_div)
  next
    case False
    then have "1 \<le> ?n" by (cases xs) simp_all
    then have "1 \<le> (?n + 99) div 100" by linarith
    with False show ?thesis by (simp add: totalPages_div spec_totalPages_div)
  qed
  from a b c show ?thesis by blast
qed

text \<open>
  The amended claim at 250, 100 and 0 rows: 3 pages, 1 page, no page.
\<close>

theorem totalPages_ceiling_witness:
  "totalPages (replicate 250 sample_row) = 3 \<and> totalPages (replicate 100 sample_row) = 1 \<and>
   totalPages ([] :: search_result list) = 0"
  using totalPages_ceiling [of "replicate 250 sample_row"]
    totalPages_ceiling [of "replicate 100 sample_row"]
    totalPages_ceiling [of "[]"]
  by simp

section \<open>Pagination\<close>

lemma paginatedResults_take_drop:
  assumes "1 \<le> p"
  shows "paginatedResults xs p = take 100 (drop (nat ((p - 1) * 100)) xs)"
proof (cases "(p - 1) * 100 < int (length xs)")
  case True
  with assms show ?thesis
    by (simp add: paginatedResults_def slice_def startIndex_def endIndex_def
        RESULTS_PER_PAGE_def Let_def min_def nat_diff_distrib)
next
  case False
  with assms show ?thesis
    by (simp add: paginatedResults_def slice_def startIndex_def endIndex_def
        RESULTS_PER_PAGE_def Let_def min_def)
qed

lemma take_drop_nth: "take n (drop m xs) = map (\<lambda>i. xs ! i) [m ..< min (m + n) (length xs)]"
proof (rule nth_equalityI)
  show "length (take n (drop m xs)) = length (map (\<lambda>i. xs ! i) [m ..< min (m + n) (length xs)])"
    by simp
next
  fix i
  assume "i < length (take n (drop m xs))"
  then have i: "i < n" "m + i < length xs" by auto
  then have "[m ..< min (m + n) (length xs)] ! i = m + i" by simp
  with i show "take n (drop m xs) ! i = map (\<lambda>i. xs ! i) [m ..< min (m + n) (length xs)] ! i"
    by simp
qed

lemma concat_chunks: "concat (map (\<lambda>i. take n (drop (i * n) xs)) [0..<k]) = take (k * n) xs"
proof (induction k)
  case 0
  show ?case by simp
next
  case (Suc k)
  have "take (k * n + n) xs = take (k * n) xs @ take n (drop (k * n) xs)"
    by (rule take_add)
  with Suc show ?case by (simp add: add.commute)
qed

lemma map_upto_from_1: "map f [1..int k] = map (\<lambda>i. f (int i + 1)) [0..<k]"
proof (induction k)
  case 0
  show ?case by simp
next
  case (Suc k)
  have "[1..int (Suc k)] = [1..int k] @ [int k + 1]"
    using upto_rec2 [of 1 "int (Suc k)"] by (simp add: add.commute)
  with Suc show ?case by simp
qed

lemma pages_concat: "concat (map (paginatedResults xs) [1..totalPages xs]) = xs"
proof -
  define k where "k = (length xs + 99) div 100"
  have "int k = (int (length xs) + 99) div 100"
    unfolding k_def by (simp add: zdiv_int)
  then have tp: "totalPages xs = int k"
    by (simp only: totalPages_div)
  have page: "paginatedResults xs (int i + 1) = take 100 (drop (i * 100) xs)" for i
    using paginatedResults_take_drop [of "int i + 1" xs] by (simp add: nat_mult_distrib)
  have "map (paginatedResults xs) [1..int k] =
        map (\<lambda>i. paginatedResults xs (int i + 1)) [0..<k]"
    by (rule map_upto_from_1)
  also have "\<dots> = map (\<lambda>i. take 100 (drop (i * 100) xs)) [0..<k]"
    by (simp only: page)
  finally have "concat (map (paginatedResults xs) [1..totalPages xs]) =
        concat (map (\<lambda>i. take 100 (drop (i * 100) xs)) [0..<k])"
    by (simp only: tp)
  also have "\<dots> = take (k * 100) xs"
    by (rule concat_chunks)
  also have "\<dots> = xs"
  proof -
    have "k * 100 + (length xs + 99) mod 100 = length xs + 99"
      unfolding k_def by (rule div_mult_mod_eq)
    moreover have "(length xs + 99) mod 100 < 100"
      by simp
    ultimately have "length xs \<le> k * 100"
      by linarith
    then show ?thesis by simp
  qed
  finally show ?thesis .
qed

text \<open>
  Claim C4. For every filtered sequence and every page number \<open>p\<close>, the pagination operation
  returns the slice \<open>[(p - 1) * 100, p * 100)\<close> clamped to the available length, and the pages 1
  up to the total number of pages, concatenated in order, are the filtered sequence itself:
  nothing is repeated and nothing is left out. Page numbers are 1-based: the page state of the
  table starts at 1 and never falls below it (\<open>page_at_least_1\<close> below), so the slice is stated
  for \<open>1 \<le> p\<close>.
\<close>

theorem paginatedResults_pages:
  "(1 \<le> p \<longrightarrow> paginatedResults xs p = spec_page xs p) \<and>
   concat (map (paginatedResults xs) [1..totalPages xs]) = xs"
proof -
  have "paginatedResults xs p = spec_page xs p" if "1 \<le> p"
  proof -
    have "nat ((p - 1) * 100) + 100 = nat (p * 100)"
      using that by (simp add: nat_add_distrib [symmetric] algebra_simps)
    then show ?thesis
      using that by (simp add: paginatedResults_take_drop take_drop_nth spec_page_def)
  qed
  with pages_concat show ?thesis by blast
qed

text \<open>
  The pages of 250 rows: page 1 has 100 rows, page 3 has 50, page 4 is empty, and the three
  pages together are the 250 rows.
\<close>

theorem paginatedResults_pages_witness:
  "(1::int) \<le> 3 \<and>
   length (paginatedResults (replicate 250 sample_row) 1) = 100 \<and>
   length (paginatedResults (replicate 250 sample_row) 3) = 50 \<and>
   paginatedResults (replicate 250 sample_row) 4 = [] \<and>
   concat (map (paginatedResults (replicate 250 sample_row))
     [1..totalPages (replicate 250 sample_row)]) = replicate 250 sample_row"
  using paginatedResults_pages [of 1 "replicate 250 sample_row"]
    paginatedResults_pages [of 3 "replicate 250 sample_row"]
    paginatedResults_pages [of 4 "replicate 250 sample_row"]
  by (simp add: spec_page_def)

section \<open>Page navigation\<close>

text \<open>
  Claim C5. For every total-pages value and every requested page number \<open>p\<close>, the navigation
  leaves the page state unchanged (and does nothing else) when \<open>p\<close> is below 1 or above the total,
  and sets the page state to \<open>p\<close> when \<open>p\<close> lies in the range.
\<close>

theorem goToPage_guard:
  "(page < 1 \<or> total_pages < page \<longrightarrow> goToPage total_pages page t = (t, [])) \<and>
   (1 \<le> page \<and> page \<le> total_pages \<longrightarrow>
      goToPage total_pages page t = (t\<lparr>currentPage := page\<rparr>, [Window_scrollTo_top]) \<and>
      currentPage (fst (goToPage total_pages page t)) = page)"
  by (auto simp add: goToPage_def)

text \<open>
  With 3 pages, the requests for page 0 and page 4 change nothing and the request for page 2
  is served.
\<close>

theorem goToPage_guard_witness:
  "goToPage 3 0 sample_table = (sample_table, []) \<and>
   goToPage 3 4 sample_table = (sample_table, []) \<and>
   currentPage (fst (goToPage 3 2 sample_table)) = 2"
  using goToPage_guard [of 0 3 sample_table] goToPage_guard [of 4 3 sample_table]
    goToPage_guard [of 2 3 sample_table]
  by simp

section \<open>Copying the results\<close>

text \<open>
  Claim C9. For every result set \<open>R\<close>, every filter text and every current page, copy-all
  writes the text whose lines are the records of the full \<open>R\<close>, one per line in the order of \<open>R\<close>,
  joined by line feeds, each line being master_id, name, fname, mobile, alt, email and address
  joined by tabs; the filter text and the page have no influence on it.
\<close>

theorem copyAllResults_text:
  "copyAllResults clipboard_ok R f t =
     Clipboard_writeText
       (join [CHR 0x0A]
          (map (\<lambda>r. join [CHR 0x09]
                  [master_id r, name r, fname r, mobile r, alt r, email r, address r]) R)) #
     (if clipboard_ok then [] else [Console_error ''Failed to copy all:'']) \<and>
   copyAllResults clipboard_ok R f t = copyAllResults clipboard_ok R f' t'"
proof -
  have "(\<lambda>r. join [CHR 0x09]
           [master_id r, name r, fname r, mobile r, alt r, email r, address r]) = row_text"
    by (rule ext) (simp add: row_text_def)
  then show ?thesis
    by (simp add: copyAllResults_def)
qed

section \<open>Searching and resetting\<close>




text \<open>
  Claim C7. A search is issued from the idle state only: in every state whose loading flag is
  set, the search operation changes nothing in the state and issues no request.
\<close>

theorem handleSearch_in_flight:
  "loading s \<Longrightarrow> handleSearch searchAPI s = (s, []) \<and> handleSearch_begin s = (s, [])"
  by (simp add: handleSearch_def handleSearch_begin_def)

text \<open>A search invoked while the sample state is loading: nothing changes, nothing is sent.\<close>

theorem handleSearch_in_flight_witness:
  "loading (sample_home\<lparr>loading := True\<rparr>) \<and>
   handleSearch (\<lambda>payload. Inr sample_response) (sample_home\<lparr>loading := True\<rparr>) =
     (sample_home\<lparr>loading := True\<rparr>, [])"
  using handleSearch_in_flight [of "sample_home\<lparr>loading := True\<rparr>" "\<lambda>payload. Inr sample_response"]
  by simp

text \<open>
  Claim C10. In every state, the reset clears the seven search fields to empty strings and
  puts the result set, the filter text, the error message and the search statistics back to
  their initial values; the combinator is as before (and so is the loading flag).
\<close>

theorem handleReset_frame:
  "handleReset s = Home_initial\<lparr>searchMode := searchMode s, loading := loading s\<rparr> \<and>
   searchFields (handleReset s) =
     \<lparr>search_fields.master_id = [], search_fields.name = [], search_fields.fname = [],
      search_fields.alt = [], search_fields.email = [], search_fields.address = [],
      search_fields.mobile = []\<rparr> \<and>
   results (handleReset s) = [] \<and>
   filterText (handleReset s) = [] \<and>
   error (handleReset s) = None \<and>
   searchStats (handleReset s) =
     \<lparr>totalMatches = 0, resultsReturned = 0, totalTime = 0, queryParseTime = 0,
      searchExecutionTime = 0, documentRetrievalTime = 0\<rparr> \<and>
   searchMode (handleReset s) = searchMode s \<and>
   loading (handleReset s) = loading s"
  by (simp add: handleReset_def Home_initial_def empty_fields_def zero_stats_def)

section \<open>The current page across renders\<close>

lemma Home_render_loading: "loading (home v) \<Longrightarrow> table (Home_render v) = None"
  by (simp add: Home_render_def)

lemma Home_render_home: "home (Home_render v) = home v"
  by (simp add: Home_render_def Let_def)

lemma Home_render_memo:
  "table (Home_render v) = Some t \<Longrightarrow> memo_filterText t = filterText (home v)"
  by (auto simp add: Home_render_def Let_def ResultsTable_hooks_def
      split: if_splits option.splits)

lemma Home_render_mounted:
  "table (Home_render v) \<noteq> None \<longleftrightarrow> \<not> loading (home v) \<and> results (home v) \<noteq> []"
  by (simp add: Home_render_def Let_def)

lemma filter_change_resets:
  assumes "f \<noteq> filterText (home v)"
  shows "page_shown (dispatch (FilterChange f) (Home_render v)) =
           (if \<not> loading (home v) \<and> results (home v) \<noteq> [] then Some 1 else None)"
proof (cases "table (Home_render v)")
  case None
  then have "\<not> (\<not> loading (home v) \<and> results (home v) \<noteq> [])"
    using Home_render_mounted [of v] by simp
  then show ?thesis
    by (auto simp add: page_shown_def dispatch_def handle_def Home_render_def Let_def)
next
  case (Some t)
  then have m: "memo_filterText t = filterText (home v)"
    by (rule Home_render_memo)
  from Some have on: "\<not> loading (home v) \<and> results (home v) \<noteq> []"
    using Home_render_mounted [of v] by simp
  have "handle (FilterChange f) (Home_render v) =
          \<lparr>home = (home v)\<lparr>filterText := f\<rparr>, table = Some t\<rparr>"
    using Some by (simp add: handle_def Home_render_home)
  then show ?thesis
    using assms m on
    by (simp add: page_shown_def dispatch_def Home_render_def ResultsTable_hooks_def)
qed

lemma fulfilled_resets:
  assumes "loading (home v)"
  shows "page_shown (dispatch (RequestFulfilled response) (Home_render v)) =
           (if search_response.results response \<noteq> [] then Some 1 else None)"
proof -
  have "table (Home_render v) = None"
    using assms by (rule Home_render_loading)
  then have "handle (RequestFulfilled response) (Home_render v) =
          \<lparr>home = handleSearch_fulfilled response (home v), table = None\<rparr>"
    by (simp add: handle_def Home_render_home)
  then show ?thesis
    by (simp add: page_shown_def dispatch_def Home_render_def ResultsTable_hooks_def
        handleSearch_fulfilled_def)
qed

lemma search_clicked_loading: "loading (home (handle SearchClicked v))"
  by (simp add: handle_def handleSearch_begin_def)

text \<open>
  The page number of a mounted table never falls below 1, whatever the events: the slice of
  the pagination is only ever taken at a page number from 1 on.
\<close>

lemma page_at_least_1:
  assumes "\<And>q. page_shown v = Some q \<Longrightarrow> 1 \<le> q"
  shows "page_shown (dispatch e v) = Some p \<Longrightarrow> 1 \<le> p"
  using assms
  by (cases e; cases "table v")
     (auto simp add: page_shown_def dispatch_def handle_def Home_render_def Let_def
        ResultsTable_hooks_def goToPage_def split: if_splits)

text \<open>
  Claim C2. In every state of the rendered page, the current page is back at 1 after the
  filter string has changed, and after a new result set has been loaded in place of the previous
  one: the request in flight unmounts the table, and the table mounted for the new result set
  starts on page 1 (no table, and so no page, is shown for an empty result set).
\<close>

theorem currentPage_reset:
  "(f \<noteq> filterText (home v) \<longrightarrow>
      page_shown (dispatch (FilterChange f) (Home_render v)) =
        (if \<not> loading (home v) \<and> results (home v) \<noteq> [] then Some 1 else None)) \<and>
   (loading (home v) \<longrightarrow>
      page_shown (dispatch (RequestFulfilled response) (Home_render v)) =
        (if search_response.results response \<noteq> [] then Some 1 else None)) \<and>
   page_shown (dispatch (RequestFulfilled response) (dispatch SearchClicked v)) =
     (if search_response.results response \<noteq> [] then Some 1 else None)"
proof -
  have "page_shown (dispatch (RequestFulfilled response) (dispatch SearchClicked v)) =
     (if search_response.results response \<noteq> [] then Some 1 else None)"
    unfolding dispatch_def [of SearchClicked]
    using search_clicked_loading
    by (rule fulfilled_resets [unfolded dispatch_def, folded dispatch_def])
  then show ?thesis
    using filter_change_resets fulfilled_resets by blast
qed

text \<open>
  The sample table stands on page 3 of 250 rows. Typing a filter puts it on page 1, and so
  does the arrival of a response while a request is in flight.
\<close>

theorem currentPage_reset_witness:
  "''rao'' \<noteq> filterText (home \<lparr>home = sample_home, table = Some sample_table\<rparr>) \<and>
   page_shown (Home_render \<lparr>home = sample_home, table = Some sample_table\<rparr>) = Some 3 \<and>
   page_shown (dispatch (FilterChange ''rao'')
     (Home_render \<lparr>home = sample_home, table = Some sample_table\<rparr>)) = Some 1 \<and>
   loading (home \<lparr>home = sample_home\<lparr>loading := True\<rparr>, table = Some sample_table\<rparr>) \<and>
   page_shown (dispatch (RequestFulfilled sample_response)
     (Home_render \<lparr>home = sample_home\<lparr>loading := True\<rparr>, table = Some sample_table\<rparr>)) = Some 1"
proof -
  have a: "filterText sample_home = []" "\<not> loading sample_home"
    "results sample_home \<noteq> []"
    by (simp_all add: sample_home_def Home_initial_def)
  have b: "page_shown (Home_render \<lparr>home = sample_home, table = Some sample_table\<rparr>) = Some 3"
    using a by (simp add: page_shown_def Home_render_def ResultsTable_hooks_def sample_table_def)
  have c: "search_response.results sample_response \<noteq> []"
    by (simp add: sample_response_def)
  show ?thesis
    using currentPage_reset [of "''rao''" "\<lparr>home = sample_home, table = Some sample_table\<rparr>"]
      currentPage_reset [of "''rao''" "\<lparr>home = sample_home\<lparr>loading := True\<rparr>, table = Some sample_table\<rparr>"
        sample_response]
      a b c
    by simp
qed

end
